theory Spec2Isabelle
  imports Main "HOL-Library.Sublist"
begin

section \<open>Values, errors and the page\<close>

text \<open>
  The script of \<^verbatim>\<open>js/main.js\<close> runs against a browser page. Elements are identified
  by a number; a reference held by the script is \<open>Undefined\<close> (an index outside a
  NodeList), \<open>Null\<close> (a query that found nothing) or \<open>Node n\<close>. JavaScript's \<open>===\<close>
  on references is equality on this type, so \<open>Null\<close> and \<open>Undefined\<close> differ.
\<close>

type_synonym elem = nat

datatype jsref = Undefined | Null | Node elem

datatype js_error = TypeError | SyntaxError

datatype handler =
    ToggleMenu | DocClick | DocKeydown | HandleMenuKeydown
  | AnchorClick | ThemeClick
  | GalleryClick | GalleryKeydown | CloseLightbox | BackdropClick | LightboxKeydown
  | Init

datatype target = Document | Element elem

text \<open>
  What the script reads and never changes: the results of its queries (the script
  creates and deletes no element and never edits a class or attribute that one of its
  selectors tests), the containment relation of the tree, the location and the media
  query. \<open>querySelector\<close> is the browser's \<open>document.querySelector\<close>: it raises
  \<open>SyntaxError\<close> on a string that is no selector and returns \<open>Null\<close> or a node otherwise.
  \<open>focusable\<close> is the browser's decision whether an element can take the focus; it
  depends on the kind of element and on the style sheet, hence on the class lists and
  the attributes of the moment (a link hidden by the style sheet while its menu lacks
  a class, a section that has been given a \<open>tabindex\<close>).
\<close>

record doc =
  navToggle :: jsref
  navMenu :: jsref
  menuLinks :: "elem list"
  navLinks :: "elem list"
  anchorLinks :: "elem list"
  querySelector :: "string \<Rightarrow> js_error + jsref"
  contains :: "elem \<Rightarrow> elem \<Rightarrow> bool"
  focusable :: "(elem \<Rightarrow> string set) \<Rightarrow> (elem \<Rightarrow> string \<Rightarrow> string option) \<Rightarrow> elem \<Rightarrow> bool"
  pathname :: string
  prefersDark :: bool
  documentElement :: elem
  themeToggle :: jsref
  lightbox :: jsref
  lightboxImg :: jsref
  lightboxClose :: jsref
  galleryImages :: "elem list"

text \<open>
  What the script changes: class lists, attributes (the \<open>src\<close> and \<open>alt\<close> properties of
  an image are kept with the attributes), the focused element, the body's
  \<open>style.overflow\<close>, local storage, the registered listeners, and of the event being
  handled its \<open>defaultPrevented\<close> flag and the \<open>scrollIntoView\<close> requests made.
\<close>

record page =
  classList :: "elem \<Rightarrow> string set"
  attributes :: "elem \<Rightarrow> string \<Rightarrow> string option"
  activeElement :: "elem option"
  bodyOverflow :: string
  localStorage :: "string \<Rightarrow> string option"
  listeners :: "(target \<times> string \<times> handler) list"
  defaultPrevented :: bool
  scrolledTo :: "elem list"

record event =
  etarget :: elem
  key :: string
  shiftKey :: bool

text \<open>
  A statement completes normally or throws; in both cases the effects made so far stay,
  so both carry the page.
\<close>

datatype completion = Normal page | Throw js_error page

fun state_of :: "completion \<Rightarrow> page" where
  "state_of (Normal s) = s"
| "state_of (Throw e s) = s"

fun throws :: "completion \<Rightarrow> js_error option" where
  "throws (Normal s) = None"
| "throws (Throw e s) = Some e"

text \<open>Statements in sequence: the first throw ends the block.\<close>

fun block :: "(page \<Rightarrow> completion) list \<Rightarrow> page \<Rightarrow> completion" where
  "block [] s = Normal s"
| "block (c # cs) s = (case c s of Normal s' \<Rightarrow> block cs s' | Throw e s' \<Rightarrow> Throw e s')"

definition forEach :: "elem list \<Rightarrow> (elem \<Rightarrow> page \<Rightarrow> completion) \<Rightarrow> page \<Rightarrow> completion" where
  "forEach xs f = block (map f xs)"

subsection \<open>The DOM calls the script makes\<close>

text \<open>A member access on \<open>null\<close> or \<open>undefined\<close> throws \<open>TypeError\<close>.\<close>

definition on_node :: "jsref \<Rightarrow> (elem \<Rightarrow> page \<Rightarrow> page) \<Rightarrow> page \<Rightarrow> completion" where
  "on_node r f s = (case r of Node n \<Rightarrow> Normal (f n s) | _ \<Rightarrow> Throw TypeError s)"

definition truthy :: "jsref \<Rightarrow> bool" where
  "truthy r = (case r of Node n \<Rightarrow> True | _ \<Rightarrow> False)"

text \<open>A string or \<open>null\<close> as a condition: \<open>null\<close> and the empty string are falsy.\<close>

definition truthy_str :: "string option \<Rightarrow> bool" where
  "truthy_str v = (case v of None \<Rightarrow> False | Some x \<Rightarrow> x \<noteq> [])"

text \<open>\<open>ToString\<close> of a string or \<open>null\<close>, as applied to the argument of \<open>endsWith\<close>.\<close>

definition to_string :: "string option \<Rightarrow> string" where
  "to_string v = (case v of None \<Rightarrow> ''null'' | Some x \<Rightarrow> x)"

text \<open>
  \<open>String.prototype.endsWith\<close> with one argument: the search string is no longer than
  the string and equals its last characters. Strings are lists of character codes, and
  the comparison is code by code, as in the script.
\<close>

definition endsWith :: "string \<Rightarrow> string \<Rightarrow> bool" where
  "endsWith str search =
     (length search \<le> length str \<and> drop (length str - length search) str = search)"

text \<open>\<open>list[i]\<close> on a NodeList: \<open>undefined\<close> outside the range, also at \<open>-1\<close>.\<close>

definition item :: "elem list \<Rightarrow> int \<Rightarrow> jsref" where
  "item xs i = (if 0 \<le> i \<and> i < int (length xs) then Node (xs ! nat i) else Undefined)"

text \<open>\<open>element.querySelector\<close> over a list of matches: the first one or \<open>null\<close>.\<close>

definition first_match :: "elem list \<Rightarrow> jsref" where
  "first_match xs = (case xs of [] \<Rightarrow> Null | x # _ \<Rightarrow> Node x)"

definition classList_add :: "jsref \<Rightarrow> string \<Rightarrow> page \<Rightarrow> completion" where
  "classList_add r c =
     on_node r (\<lambda>n s. s\<lparr>classList := (classList s)(n := insert c (classList s n))\<rparr>)"

definition classList_remove :: "jsref \<Rightarrow> string \<Rightarrow> page \<Rightarrow> completion" where
  "classList_remove r c =
     on_node r (\<lambda>n s. s\<lparr>classList := (classList s)(n := classList s n - {c})\<rparr>)"

definition setAttribute :: "jsref \<Rightarrow> string \<Rightarrow> string \<Rightarrow> page \<Rightarrow> completion" where
  "setAttribute r k v =
     on_node r (\<lambda>n s. s\<lparr>attributes := (attributes s)(n := (attributes s n)(k \<mapsto> v))\<rparr>)"

definition removeAttribute :: "jsref \<Rightarrow> string \<Rightarrow> page \<Rightarrow> completion" where
  "removeAttribute r k =
     on_node r (\<lambda>n s. s\<lparr>attributes := (attributes s)(n := (attributes s n)(k := None))\<rparr>)"

text \<open>
  \<open>element.focus()\<close> makes the element the active one when the browser lets it take
  the focus, and does nothing otherwise; on \<open>null\<close> it throws like every member access.
\<close>

definition focus :: "doc \<Rightarrow> jsref \<Rightarrow> page \<Rightarrow> completion" where
  "focus D r =
     on_node r (\<lambda>n s. if focusable D (classList s) (attributes s) n
                       then s\<lparr>activeElement := Some n\<rparr> else s)"

definition addEventListener :: "jsref \<Rightarrow> string \<Rightarrow> handler \<Rightarrow> page \<Rightarrow> completion" where
  "addEventListener r ty h =
     on_node r (\<lambda>n s. s\<lparr>listeners := listeners s @ [(Element n, ty, h)]\<rparr>)"

definition document_addEventListener :: "string \<Rightarrow> handler \<Rightarrow> page \<Rightarrow> completion" where
  "document_addEventListener ty h s =
     Normal (s\<lparr>listeners := listeners s @ [(Document, ty, h)]\<rparr>)"

definition preventDefault :: "page \<Rightarrow> completion" where
  "preventDefault s = Normal (s\<lparr>defaultPrevented := True\<rparr>)"

definition scrollIntoView :: "jsref \<Rightarrow> page \<Rightarrow> completion" where
  "scrollIntoView r = on_node r (\<lambda>n s. s\<lparr>scrolledTo := scrolledTo s @ [n]\<rparr>)"

definition localStorage_setItem :: "string \<Rightarrow> string \<Rightarrow> page \<Rightarrow> completion" where
  "localStorage_setItem k v s = Normal (s\<lparr>localStorage := (localStorage s)(k \<mapsto> v)\<rparr>)"

text \<open>
  \<open>document.activeElement\<close> as the script reads it: the focused element or \<open>null\<close>,
  never \<open>undefined\<close>.
\<close>

definition document_activeElement :: "page \<Rightarrow> jsref" where
  "document_activeElement s = (case activeElement s of None \<Rightarrow> Null | Some n \<Rightarrow> Node n)"

text \<open>Reading the \<open>src\<close> or \<open>alt\<close> property of an image: the empty string when unset.\<close>

definition property :: "page \<Rightarrow> elem \<Rightarrow> string \<Rightarrow> string" where
  "property s n k = (case attributes s n k of None \<Rightarrow> [] | Some v \<Rightarrow> v)"

definition set_bodyOverflow :: "string \<Rightarrow> page \<Rightarrow> completion" where
  "set_bodyOverflow v s = Normal (s\<lparr>bodyOverflow := v\<rparr>)"

section \<open>Navigation\<close>

definition closeMenu :: "doc \<Rightarrow> page \<Rightarrow> completion" where
  "closeMenu D =
     block [classList_remove (navMenu D) ''active'',
            setAttribute (navToggle D) ''aria-expanded'' ''false'']"

definition openMenu :: "doc \<Rightarrow> page \<Rightarrow> completion" where
  "openMenu D =
     block [classList_add (navMenu D) ''active'',
            setAttribute (navToggle D) ''aria-expanded'' ''true'',
            (\<lambda>s. case navMenu D of
                   Node m \<Rightarrow>
                     (let firstLink = first_match (menuLinks D)
                      in if truthy firstLink then focus D firstLink s else Normal s)
                 | _ \<Rightarrow> Throw TypeError s)]"

definition toggleMenu :: "doc \<Rightarrow> page \<Rightarrow> completion" where
  "toggleMenu D s =
     (case navMenu D of
        Node m \<Rightarrow>
          (let isOpen = ''active'' \<in> classList s m
           in if isOpen then closeMenu D s else openMenu D s)
      | _ \<Rightarrow> Throw TypeError s)"

text \<open>The listener on the document for clicks (lines 22 to 26).\<close>

definition docClick :: "doc \<Rightarrow> event \<Rightarrow> page \<Rightarrow> completion" where
  "docClick D e s =
     (case navToggle D of
        Node t \<Rightarrow>
          (if \<not> contains D t (etarget e) then
             (case navMenu D of
                Node m \<Rightarrow> (if \<not> contains D m (etarget e) then closeMenu D s else Normal s)
              | _ \<Rightarrow> Throw TypeError s)
           else Normal s)
      | _ \<Rightarrow> Throw TypeError s)"

text \<open>The listener on the document for key presses (lines 29 to 34).\<close>

definition docKeydown :: "doc \<Rightarrow> event \<Rightarrow> page \<Rightarrow> completion" where
  "docKeydown D e s =
     (if key e = ''Escape'' then
        (case navMenu D of
           Node m \<Rightarrow>
             (if ''active'' \<in> classList s m
              then block [closeMenu D, focus D (navToggle D)] s
              else Normal s)
         | _ \<Rightarrow> Throw TypeError s)
      else Normal s)"

definition handleMenuKeydown :: "doc \<Rightarrow> event \<Rightarrow> page \<Rightarrow> completion" where
  "handleMenuKeydown D e s =
     (case navMenu D of
        Node m \<Rightarrow>
          (let firstLink = item (menuLinks D) 0;
               lastLink = item (menuLinks D) (int (length (menuLinks D)) - 1)
           in if key e = ''Tab'' then
                (if shiftKey e \<and> document_activeElement s = firstLink then
                   block [preventDefault, focus D lastLink] s
                 else if \<not> shiftKey e \<and> document_activeElement s = lastLink then
                   block [preventDefault, focus D firstLink] s
                 else Normal s)
              else Normal s)
      | _ \<Rightarrow> Throw TypeError s)"

definition initNavigation :: "doc \<Rightarrow> page \<Rightarrow> completion" where
  "initNavigation D s =
     (if \<not> truthy (navToggle D) \<or> \<not> truthy (navMenu D) then Normal s
      else block [addEventListener (navToggle D) ''click'' ToggleMenu,
                  document_addEventListener ''click'' DocClick,
                  document_addEventListener ''keydown'' DocKeydown,
                  addEventListener (navMenu D) ''keydown'' HandleMenuKeydown] s)"

section \<open>Smooth scrolling\<close>

text \<open>The click listener of an anchor; \<open>this\<close> is the anchor it was registered on.\<close>

definition anchorClick :: "doc \<Rightarrow> elem \<Rightarrow> page \<Rightarrow> completion" where
  "anchorClick D this s =
     (let targetId = attributes s this ''href''
      in if targetId = Some ''#'' then Normal s
         else (case querySelector D (to_string targetId) of
                 Inl err \<Rightarrow> Throw err s
               | Inr targetElement \<Rightarrow>
                   (if truthy targetElement then
                      block [preventDefault,
                             scrollIntoView targetElement,
                             setAttribute targetElement ''tabindex'' ''-1'',
                             focus D targetElement] s
                    else Normal s)))"

definition initSmoothScroll :: "doc \<Rightarrow> page \<Rightarrow> completion" where
  "initSmoothScroll D =
     forEach (anchorLinks D) (\<lambda>link. addEventListener (Node link) ''click'' AnchorClick)"

section \<open>Active navigation link\<close>

definition isActive :: "string \<Rightarrow> string option \<Rightarrow> bool" where
  "isActive currentPath href =
     (endsWith currentPath (to_string href) \<or>
      (currentPath = ''/'' \<and> href = Some ''index.html'') \<or>
      (endsWith currentPath ''/'' \<and> href = Some ''index.html''))"

definition markLink :: "string \<Rightarrow> elem \<Rightarrow> page \<Rightarrow> completion" where
  "markLink currentPath link s =
     (let href = attributes s link ''href''
      in if isActive currentPath href then
           block [classList_add (Node link) ''active'',
                  setAttribute (Node link) ''aria-current'' ''page''] s
         else
           block [classList_remove (Node link) ''active'',
                  removeAttribute (Node link) ''aria-current''] s)"

definition updateActiveNav :: "doc \<Rightarrow> page \<Rightarrow> completion" where
  "updateActiveNav D = forEach (navLinks D) (markLink (pathname D))"

section \<open>Dark mode\<close>

text \<open>The click listener of the theme toggle (lines 160 to 170).\<close>

definition themeClick :: "doc \<Rightarrow> page \<Rightarrow> completion" where
  "themeClick D s =
     (let currentTheme = attributes s (documentElement D) ''data-theme'';
          newTheme = (if currentTheme = Some ''dark'' then ''light'' else ''dark'');
          label = (if newTheme = ''dark'' then ''Switch to light mode''
                   else ''Switch to dark mode'')
      in block [setAttribute (Node (documentElement D)) ''data-theme'' newTheme,
                localStorage_setItem ''theme'' newTheme,
                setAttribute (themeToggle D) ''aria-label'' label] s)"

definition initDarkMode :: "doc \<Rightarrow> page \<Rightarrow> completion" where
  "initDarkMode D s =
     (if \<not> truthy (themeToggle D) then Normal s
      else
        (let savedTheme = localStorage s ''theme'';
             systemPrefersDark = prefersDark D
         in block [(\<lambda>s. if savedTheme = Some ''dark'' \<or> (\<not> truthy_str savedTheme \<and> systemPrefersDark)
                         then setAttribute (Node (documentElement D)) ''data-theme'' ''dark'' s
                         else Normal s),
                   addEventListener (themeToggle D) ''click'' ThemeClick] s))"

section \<open>Lightbox\<close>

text \<open>
  The body shared by the click and the Enter-key listeners of a gallery image; \<open>this\<close>
  is the image.
\<close>

definition openLightbox :: "doc \<Rightarrow> elem \<Rightarrow> page \<Rightarrow> completion" where
  "openLightbox D this s =
     block [setAttribute (lightboxImg D) ''src'' (property s this ''src''),
            setAttribute (lightboxImg D) ''alt'' (property s this ''alt''),
            classList_add (lightbox D) ''active'',
            set_bodyOverflow ''hidden'',
            focus D (lightboxClose D)] s"

definition galleryClick :: "doc \<Rightarrow> elem \<Rightarrow> page \<Rightarrow> completion" where
  "galleryClick D this s = openLightbox D this s"

definition galleryKeydown :: "doc \<Rightarrow> elem \<Rightarrow> event \<Rightarrow> page \<Rightarrow> completion" where
  "galleryKeydown D this e s =
     (if key e = ''Enter'' then openLightbox D this s else Normal s)"

definition closeLightbox :: "doc \<Rightarrow> page \<Rightarrow> completion" where
  "closeLightbox D =
     block [classList_remove (lightbox D) ''active'', set_bodyOverflow '''']"

definition backdropClick :: "doc \<Rightarrow> event \<Rightarrow> page \<Rightarrow> completion" where
  "backdropClick D e s =
     (if Node (etarget e) = lightbox D then closeLightbox D s else Normal s)"

definition lightboxKeydown :: "doc \<Rightarrow> event \<Rightarrow> page \<Rightarrow> completion" where
  "lightboxKeydown D e s =
     (if key e = ''Escape'' then
        (case lightbox D of
           Node b \<Rightarrow> (if ''active'' \<in> classList s b then closeLightbox D s else Normal s)
         | _ \<Rightarrow> Throw TypeError s)
      else Normal s)"

definition initLightbox :: "doc \<Rightarrow> page \<Rightarrow> completion" where
  "initLightbox D s =
     (if \<not> truthy (lightbox D) \<or> galleryImages D = [] then Normal s
      else block [forEach (galleryImages D) (\<lambda>img.
                    block [addEventListener (Node img) ''click'' GalleryClick,
                           addEventListener (Node img) ''keydown'' GalleryKeydown]),
                  addEventListener (lightboxClose D) ''click'' CloseLightbox,
                  addEventListener (lightbox D) ''click'' BackdropClick,
                  document_addEventListener ''keydown'' LightboxKeydown] s)"

section \<open>Start-up and the listeners' code\<close>

definition init :: "doc \<Rightarrow> page \<Rightarrow> completion" where
  "init D =
     block [initNavigation D, initSmoothScroll D, updateActiveNav D,
            initDarkMode D, initLightbox D]"

text \<open>The function behind each registered listener, called with its \<open>this\<close> and its event.\<close>

fun handle :: "doc \<Rightarrow> handler \<Rightarrow> elem \<Rightarrow> event \<Rightarrow> page \<Rightarrow> completion" where
  "handle D ToggleMenu this e = toggleMenu D"
| "handle D DocClick this e = docClick D e"
| "handle D DocKeydown this e = docKeydown D e"
| "handle D HandleMenuKeydown this e = handleMenuKeydown D e"
| "handle D AnchorClick this e = anchorClick D this"
| "handle D ThemeClick this e = themeClick D"
| "handle D GalleryClick this e = galleryClick D this"
| "handle D GalleryKeydown this e = galleryKeydown D this e"
| "handle D CloseLightbox this e = closeLightbox D"
| "handle D BackdropClick this e = backdropClick D e"
| "handle D LightboxKeydown this e = lightboxKeydown D e"
| "handle D Init this e = init D"

text \<open>
  The last lines of the script: \<open>init\<close> runs at once, or when the document has been
  parsed if it is still loading.
\<close>

definition main :: "string \<Rightarrow> doc \<Rightarrow> page \<Rightarrow> completion" where
  "main readyState D s =
     (if readyState = ''loading'' then document_addEventListener ''DOMContentLoaded'' Init s
      else init D s)"

section \<open>Runs of the controllers\<close>

text \<open>
  The operations on the navigation menu: the three functions, and the three listeners
  with the event they receive. An outside click is \<open>OpDocClick e\<close> with the target of
  \<open>e\<close> in neither the trigger nor the menu; Escape is \<open>OpDocKeydown e\<close> with key
  \<open>Escape\<close>.
\<close>

datatype nav_op =
    OpOpen | OpClose | OpToggle
  | OpDocClick event | OpDocKeydown event | OpMenuKeydown event

fun nav_step :: "doc \<Rightarrow> nav_op \<Rightarrow> page \<Rightarrow> completion" where
  "nav_step D OpOpen = openMenu D"
| "nav_step D OpClose = closeMenu D"
| "nav_step D OpToggle = toggleMenu D"
| "nav_step D (OpDocClick e) = docClick D e"
| "nav_step D (OpDocKeydown e) = docKeydown D e"
| "nav_step D (OpMenuKeydown e) = handleMenuKeydown D e"

text \<open>The completions of a sequence of operations, each run on the page the last left.\<close>

fun nav_trace :: "doc \<Rightarrow> page \<Rightarrow> nav_op list \<Rightarrow> completion list" where
  "nav_trace D s [] = []"
| "nav_trace D s (op # ops) =
     (let c = nav_step D op s in c # nav_trace D (state_of c) ops)"

text \<open>
  The trigger's \<open>aria-expanded\<close> is \<open>true\<close> when the menu has the class \<open>active\<close> and
  \<open>false\<close> when it has not.
\<close>

definition aria_synced :: "doc \<Rightarrow> page \<Rightarrow> bool" where
  "aria_synced D s =
     (case navToggle D of
        Node t \<Rightarrow>
          (case navMenu D of
             Node m \<Rightarrow>
               attributes s t ''aria-expanded'' =
                 Some (if ''active'' \<in> classList s m then ''true'' else ''false'')
           | _ \<Rightarrow> False)
      | _ \<Rightarrow> False)"

text \<open>
  The operations that run \<open>openMenu\<close> or \<open>closeMenu\<close> on the page they meet: the two
  functions, the toggle, a click outside the trigger and the menu, and Escape while the
  menu has the class \<open>active\<close>.
\<close>

definition opens_or_closes :: "doc \<Rightarrow> page \<Rightarrow> nav_op \<Rightarrow> bool" where
  "opens_or_closes D s op =
     (case op of
        OpOpen \<Rightarrow> True
      | OpClose \<Rightarrow> True
      | OpToggle \<Rightarrow> True
      | OpDocClick e \<Rightarrow>
          (case navToggle D of Node t \<Rightarrow> \<not> contains D t (etarget e) | _ \<Rightarrow> False) \<and>
          (case navMenu D of Node m \<Rightarrow> \<not> contains D m (etarget e) | _ \<Rightarrow> False)
      | OpDocKeydown e \<Rightarrow>
          key e = ''Escape'' \<and>
          (case navMenu D of Node m \<Rightarrow> ''active'' \<in> classList s m | _ \<Rightarrow> False)
      | OpMenuKeydown e \<Rightarrow> False)"

text \<open>
  The operations of the theme controller: initialisation, and a click on the toggle,
  which runs the listener when initialisation has registered it.
\<close>

datatype theme_op = ThemeInit | ThemeToggle

definition theme_registered :: "doc \<Rightarrow> page \<Rightarrow> bool" where
  "theme_registered D s =
     (case themeToggle D of
        Node b \<Rightarrow> (Element b, ''click'', ThemeClick) \<in> set (listeners s)
      | _ \<Rightarrow> False)"

fun theme_step :: "doc \<Rightarrow> theme_op \<Rightarrow> page \<Rightarrow> completion" where
  "theme_step D ThemeInit s = initDarkMode D s"
| "theme_step D ThemeToggle s =
     (if theme_registered D s then themeClick D s else Normal s)"

fun theme_run :: "doc \<Rightarrow> page \<Rightarrow> theme_op list \<Rightarrow> page" where
  "theme_run D s [] = s"
| "theme_run D s (op # ops) = theme_run D (state_of (theme_step D op s)) ops"

definition data_theme :: "doc \<Rightarrow> page \<Rightarrow> string option" where
  "data_theme D s = attributes s (documentElement D) ''data-theme''"

definition stored_theme :: "page \<Rightarrow> string option" where
  "stored_theme s = localStorage s ''theme''"

subsection \<open>A page to run the script on\<close>

text \<open>
  A page with every element the script looks for: trigger 1, menu 2 with the links 3
  and 4, the anchors 5 and 6, the theme toggle 7, the overlay 8 with its image 9 and
  close button 10, the gallery images 11 and 12, and a section 13 with id \<open>main\<close>.
  It is laid out as on a wide screen: the links of the menu are shown, and take the
  focus, whether or not the menu has the class \<open>active\<close>; so do the buttons and the
  anchors, and any element that has a \<open>tabindex\<close>.
\<close>

definition sample_doc :: doc where
  "sample_doc =
     \<lparr>navToggle = Node 1, navMenu = Node 2, menuLinks = [3, 4], navLinks = [3, 4],
      anchorLinks = [5, 6],
      querySelector = (\<lambda>sel. if sel = ''#main'' then Inr (Node 13)
                             else if sel = ''#1st'' \<or> sel = [] then Inl SyntaxError
                             else Inr Null),
      contains = (\<lambda>a b. a = b \<or> (a = 2 \<and> (b = 3 \<or> b = 4))),
      focusable = (\<lambda>cl at n. n = 1 \<or> n = 3 \<or> n = 4 \<or> n = 5 \<or> n = 6 \<or> n = 7 \<or> n = 10 \<or>
                             at n ''tabindex'' \<noteq> None),
      pathname = ''/'', prefersDark = True, documentElement = 0,
      themeToggle = Node 7, lightbox = Node 8, lightboxImg = Node 9,
      lightboxClose = Node 10, galleryImages = [11, 12]\<rparr>"

definition blank_page :: page where
  "blank_page =
     \<lparr>classList = (\<lambda>n. {}), attributes = (\<lambda>n. Map.empty), activeElement = None,
      bodyOverflow = [], localStorage = Map.empty, listeners = [],
      defaultPrevented = False, scrolledTo = []\<rparr>"

text \<open>
  The same page as served: the menu closed and announced closed, the links 3 and 4 to
  \<open>index.html\<close> and \<open>about.html\<close>, the anchors 5 and 6 to \<open>#\<close> and to an id that no
  element has.
\<close>

definition sample_page :: page where
  "sample_page =
     blank_page\<lparr>attributes :=
       (\<lambda>n. if n = 1 then [''aria-expanded'' \<mapsto> ''false'']
            else if n = 3 then [''href'' \<mapsto> ''index.html'']
            else if n = 4 then [''href'' \<mapsto> ''about.html'']
            else if n = 5 then [''href'' \<mapsto> ''#'']
            else if n = 6 then [''href'' \<mapsto> ''#nowhere'']
            else Map.empty)\<rparr>"

definition keydown_on :: "elem \<Rightarrow> string \<Rightarrow> bool \<Rightarrow> event" where
  "keydown_on n k shift = \<lparr>etarget = n, key = k, shiftKey = shift\<rparr>"

definition click_on :: "elem \<Rightarrow> event" where
  "click_on n = \<lparr>etarget = n, key = [], shiftKey = False\<rparr>"

section \<open>Facts about the DOM calls\<close>

lemmas dom_defs = on_node_def classList_add_def classList_remove_def setAttribute_def
  removeAttribute_def focus_def addEventListener_def document_addEventListener_def
  preventDefault_def scrollIntoView_def localStorage_setItem_def set_bodyOverflow_def

lemmas sample_defs = sample_doc_def blank_page_def sample_page_def keydown_on_def click_on_def

lemma endsWith_suffix: "endsWith s t \<longleftrightarrow> suffix t s"
proof
  assume "endsWith s t"
  then have "drop (length s - length t) s = t" by (simp add: endsWith_def)
  then have "s = take (length s - length t) s @ t" by (metis append_take_drop_id)
  then show "suffix t s" unfolding suffix_def by blast
next
  assume "suffix t s"
  then obtain zs where "s = zs @ t" unfolding suffix_def by blast
  then show "endsWith s t" by (simp add: endsWith_def)
qed

lemma item_first: "xs \<noteq> [] \<Longrightarrow> item xs 0 = Node (hd xs)"
  by (cases xs) (simp_all add: item_def)

lemma item_last: "xs \<noteq> [] \<Longrightarrow> item xs (int (length xs) - 1) = Node (last xs)"
proof -
  assume ne: "xs \<noteq> []"
  then have "nat (int (length xs) - 1) = length xs - 1" by simp
  moreover from ne have "0 \<le> int (length xs) - 1" by (cases xs) simp_all
  ultimately show ?thesis using ne by (simp add: item_def last_conv_nth)
qed

lemma item_empty: "item [] i = Undefined"
  by (simp add: item_def)

section \<open>Navigation: the menu and its trigger\<close>

lemma closeMenu_run:
  "navToggle D = Node t \<Longrightarrow> navMenu D = Node m \<Longrightarrow>
   closeMenu D s = Normal (s\<lparr>classList := (classList s)(m := classList s m - {''active''}),
      attributes := (attributes s)(t := (attributes s t)(''aria-expanded'' \<mapsto> ''false''))\<rparr>)"
  by (simp add: closeMenu_def dom_defs)

lemma openMenu_run:
  "navToggle D = Node t \<Longrightarrow> navMenu D = Node m \<Longrightarrow>
   openMenu D s = Normal (s\<lparr>classList := (classList s)(m := insert ''active'' (classList s m)),
      attributes := (attributes s)(t := (attributes s t)(''aria-expanded'' \<mapsto> ''true'')),
      activeElement :=
        (case menuLinks D of
           [] \<Rightarrow> activeElement s
         | l # ls \<Rightarrow>
             (if focusable D ((classList s)(m := insert ''active'' (classList s m)))
                   ((attributes s)(t := (attributes s t)(''aria-expanded'' \<mapsto> ''true''))) l
              then Some l else activeElement s))\<rparr>)"
  by (simp add: openMenu_def dom_defs first_match_def truthy_def split: list.splits)

lemma closeMenu_synced:
  "navToggle D = Node t \<Longrightarrow> navMenu D = Node m \<Longrightarrow>
   throws (closeMenu D s) = None \<and> aria_synced D (state_of (closeMenu D s))"
  by (simp add: closeMenu_run aria_synced_def)

lemma openMenu_synced:
  "navToggle D = Node t \<Longrightarrow> navMenu D = Node m \<Longrightarrow>
   throws (openMenu D s) = None \<and> aria_synced D (state_of (openMenu D s))"
  by (simp add: openMenu_run aria_synced_def)

text \<open>
  All of the focus trap of an existing menu. Shift+Tab with the focus on the first link
  prevents the default and asks the last link to take the focus; Tab without Shift with
  the focus on the last link prevents the default and asks the first link to take it;
  every other key press, Tab on another element included, leaves the page and the event
  as they are. The class \<open>active\<close> of the menu is not among the conditions.
\<close>

lemma handleMenuKeydown_run:
  assumes m: "navMenu D = Node m"
  shows "handleMenuKeydown D e s =
    (if menuLinks D \<noteq> [] \<and> key e = ''Tab'' \<and> shiftKey e \<and>
        activeElement s = Some (hd (menuLinks D)) then
       Normal (s\<lparr>defaultPrevented := True,
                 activeElement :=
                   (if focusable D (classList s) (attributes s) (last (menuLinks D))
                    then Some (last (menuLinks D)) else activeElement s)\<rparr>)
     else if menuLinks D \<noteq> [] \<and> key e = ''Tab'' \<and> \<not> shiftKey e \<and>
        activeElement s = Some (last (menuLinks D)) then
       Normal (s\<lparr>defaultPrevented := True,
                 activeElement :=
                   (if focusable D (classList s) (attributes s) (hd (menuLinks D))
                    then Some (hd (menuLinks D)) else activeElement s)\<rparr>)
     else Normal s)"
proof (cases "menuLinks D = []")
  case True
  then show ?thesis
    by (simp add: handleMenuKeydown_def m Let_def item_empty document_activeElement_def
          split: option.splits)
next
  case False
  then show ?thesis
    by (cases "activeElement s")
       (auto simp: handleMenuKeydown_def m Let_def item_first item_last dom_defs
          document_activeElement_def)
qed

text \<open>
  So the focus trap either leaves the page as it is or prevents the default and asks for
  the focus to move.
\<close>

lemma handleMenuKeydown_cases:
  "navMenu D = Node m \<Longrightarrow>
   handleMenuKeydown D e s = Normal s \<or>
   (\<exists>a. handleMenuKeydown D e s = Normal (s\<lparr>defaultPrevented := True, activeElement := a\<rparr>))"
  by (auto simp: handleMenuKeydown_run)

lemma nav_step_synced:
  assumes t: "navToggle D = Node t" and m: "navMenu D = Node m" and inv: "aria_synced D s"
  shows "throws (nav_step D op s) = None \<and> aria_synced D (state_of (nav_step D op s))"
proof (cases op)
  case OpOpen
  then show ?thesis using openMenu_synced [OF t m] by simp
next
  case OpClose
  then show ?thesis using closeMenu_synced [OF t m] by simp
next
  case OpToggle
  then show ?thesis
    using openMenu_synced [OF t m] closeMenu_synced [OF t m] by (simp add: toggleMenu_def m)
next
  case (OpDocClick e)
  then show ?thesis
    using closeMenu_synced [OF t m] inv by (simp add: docClick_def t m)
next
  case (OpDocKeydown e)
  have "aria_synced D (state_of (block [closeMenu D, focus D (navToggle D)] s))"
       "throws (block [closeMenu D, focus D (navToggle D)] s) = None"
    by (simp_all add: closeMenu_run [OF t m] t dom_defs aria_synced_def m)
  then show ?thesis
    using OpDocKeydown inv by (simp add: docKeydown_def m)
next
  case (OpMenuKeydown e)
  from handleMenuKeydown_cases [OF m, of e s] show ?thesis
    using OpMenuKeydown inv by (auto simp: aria_synced_def t m)
qed

text \<open>
  Every operation that runs \<open>openMenu\<close> or \<open>closeMenu\<close> leaves the attribute and the class
  in agreement, whatever the page was before. The remaining operations (a click inside,
  Escape on a closed menu, another key, the focus trap) write neither the attribute nor
  the class.
\<close>

lemma nav_step_establishes:
  assumes t: "navToggle D = Node t" and m: "navMenu D = Node m"
    and op: "opens_or_closes D s op"
  shows "aria_synced D (state_of (nav_step D op s))"
proof -
  have esc: "aria_synced D (state_of (block [closeMenu D, focus D (navToggle D)] s))"
    by (simp add: closeMenu_run [OF t m] t dom_defs aria_synced_def m)
  from op show ?thesis
    using openMenu_synced [OF t m, of s] closeMenu_synced [OF t m, of s] esc
    by (cases op) (simp_all add: opens_or_closes_def toggleMenu_def docClick_def docKeydown_def t m)
qed

lemma nav_step_no_throw:
  assumes t: "navToggle D = Node t" and m: "navMenu D = Node m"
  shows "throws (nav_step D op s) = None"
proof (cases op)
  case (OpDocKeydown e)
  have "throws (block [closeMenu D, focus D (navToggle D)] s) = None"
    by (simp add: closeMenu_run [OF t m] t dom_defs)
  then show ?thesis using OpDocKeydown by (simp add: docKeydown_def m)
next
  case (OpMenuKeydown e)
  from handleMenuKeydown_cases [OF m, of e s] show ?thesis
    using OpMenuKeydown by auto
qed (use openMenu_synced [OF t m, of s] closeMenu_synced [OF t m, of s]
     in \<open>simp_all add: toggleMenu_def docClick_def t m\<close>)

lemma nav_trace_synced:
  assumes "navToggle D = Node t" and "navMenu D = Node m" and "aria_synced D s"
  shows "\<forall>c \<in> set (nav_trace D s ops). throws c = None \<and> aria_synced D (state_of c)"
  using assms(3)
proof (induction ops arbitrary: s)
  case Nil
  then show ?case by simp
next
  case (Cons op ops)
  from nav_step_synced [OF assms(1) assms(2) Cons.prems, of op]
  have step: "throws (nav_step D op s) = None" "aria_synced D (state_of (nav_step D op s))"
    by simp_all
  from Cons.IH [OF step(2)] step show ?case by (simp add: Let_def)
qed

text \<open>
  Claim C4. On a page whose trigger and menu exist (the only pages on which
  \<open>initNavigation\<close> registers a listener), take any sequence of open, close, toggle,
  document click (outside or not), document key press (Escape or not) and menu key
  press. If the markup starts with the trigger's \<open>aria-expanded\<close> in agreement with the
  menu's class \<open>active\<close>, or if the first operation of the sequence opens or closes the
  menu, then every operation completes without an exception and leaves \<open>aria-expanded\<close>
  equal to \<open>true\<close> exactly when the menu has the class \<open>active\<close> and to \<open>false\<close> exactly when
  it has not.
\<close>

theorem aria_expanded_in_sync:
  assumes t: "navToggle D = Node t" and m: "navMenu D = Node m"
    and start: "aria_synced D s \<or> (\<exists>op rest. ops = op # rest \<and> opens_or_closes D s op)"
  shows "\<forall>c \<in> set (nav_trace D s ops). throws c = None \<and> aria_synced D (state_of c)"
proof (cases "aria_synced D s")
  case True
  then show ?thesis by (rule nav_trace_synced [OF t m])
next
  case False
  with start obtain op rest where ops: "ops = op # rest" and op: "opens_or_closes D s op"
    by blast
  have first: "aria_synced D (state_of (nav_step D op s))"
    by (rule nav_step_establishes [OF t m op])
  have quiet: "throws (nav_step D op s) = None"
    by (rule nav_step_no_throw [OF t m])
  from nav_trace_synced [OF t m first, of rest] first quiet show ?thesis
    by (simp add: ops Let_def)
qed

text \<open>
  The served page, with the menu opened by the trigger, Shift+Tab pressed in it, closed
  by Escape, opened again and closed by a click outside; and a page whose trigger has
  no \<open>aria-expanded\<close> at all, with a click outside first.
\<close>

theorem aria_expanded_in_sync_witness:
  "navToggle sample_doc = Node 1 \<and> navMenu sample_doc = Node 2 \<and>
   aria_synced sample_doc sample_page \<and>
   list_all (\<lambda>c. throws c = None \<and> aria_synced sample_doc (state_of c))
     (nav_trace sample_doc sample_page
        [OpToggle, OpMenuKeydown (keydown_on 3 ''Tab'' True),
         OpDocKeydown (keydown_on 4 ''Escape'' False), OpToggle, OpDocClick (click_on 13)]) \<and>
   map (\<lambda>c. attributes (state_of c) 1 ''aria-expanded'')
     (nav_trace sample_doc sample_page
        [OpToggle, OpMenuKeydown (keydown_on 3 ''Tab'' True),
         OpDocKeydown (keydown_on 4 ''Escape'' False), OpToggle, OpDocClick (click_on 13)]) =
     [Some ''true'', Some ''true'', Some ''false'', Some ''true'', Some ''false''] \<and>
   attributes blank_page 1 ''aria-expanded'' = None \<and>
   opens_or_closes sample_doc blank_page (OpDocClick (click_on 13)) \<and>
   list_all (\<lambda>c. throws c = None \<and> aria_synced sample_doc (state_of c))
     (nav_trace sample_doc blank_page
        [OpDocClick (click_on 13), OpDocKeydown (keydown_on 13 ''Escape'' False), OpToggle])"
proof -
  have t: "navToggle sample_doc = Node 1" and m: "navMenu sample_doc = Node 2"
    by (simp_all add: sample_doc_def)
  have s: "aria_synced sample_doc sample_page"
    by (simp add: aria_synced_def sample_defs)
  have vals: "map (\<lambda>c. attributes (state_of c) 1 ''aria-expanded'')
     (nav_trace sample_doc sample_page
        [OpToggle, OpMenuKeydown (keydown_on 3 ''Tab'' True),
         OpDocKeydown (keydown_on 4 ''Escape'' False), OpToggle, OpDocClick (click_on 13)]) =
     [Some ''true'', Some ''true'', Some ''false'', Some ''true'', Some ''false'']"
    by (simp add: sample_defs Let_def toggleMenu_def openMenu_def closeMenu_def docClick_def
          docKeydown_def handleMenuKeydown_def item_def first_match_def truthy_def
          document_activeElement_def dom_defs)
  have tr: "list_all (\<lambda>c. throws c = None \<and> aria_synced sample_doc (state_of c))
     (nav_trace sample_doc sample_page
        [OpToggle, OpMenuKeydown (keydown_on 3 ''Tab'' True),
         OpDocKeydown (keydown_on 4 ''Escape'' False), OpToggle, OpDocClick (click_on 13)])"
    unfolding list_all_iff by (rule aria_expanded_in_sync [OF t m]) (simp add: s)
  have unset: "attributes blank_page 1 ''aria-expanded'' = None"
    by (simp add: blank_page_def)
  have out: "opens_or_closes sample_doc blank_page (OpDocClick (click_on 13))"
    by (simp add: opens_or_closes_def sample_defs)
  have tr': "list_all (\<lambda>c. throws c = None \<and> aria_synced sample_doc (state_of c))
     (nav_trace sample_doc blank_page
        [OpDocClick (click_on 13), OpDocKeydown (keydown_on 13 ''Escape'' False), OpToggle])"
    unfolding list_all_iff by (rule aria_expanded_in_sync [OF t m]) (simp add: out)
  from t m s tr vals unset out tr' show ?thesis by (intro conjI)
qed

section \<open>Navigation: the focus trap\<close>

text \<open>On an open menu whose links can take the focus the trap wraps, as intended.\<close>

lemma handleMenuKeydown_open_menu:
  assumes "navMenu D = Node m" and "''active'' \<in> classList s m" and "menuLinks D \<noteq> []"
    and "focusable D (classList s) (attributes s) (hd (menuLinks D))"
    and "key e = ''Tab''" and "\<not> shiftKey e"
    and "activeElement s = Some (last (menuLinks D))"
  shows "handleMenuKeydown D e s =
           Normal (s\<lparr>defaultPrevented := True, activeElement := Some (hd (menuLinks D))\<rparr>)"
  using assms by (simp add: handleMenuKeydown_run)

text \<open>
  Claim C3, where the code departs from it. The served page is laid out as on a wide
  screen, where the links of the menu are shown and take the focus while the menu has
  no class \<open>active\<close>; the menu has never been opened. With the focus on the last link,
  Tab prevents the default and puts the focus back on the first link; with the focus on
  the first link, Shift+Tab prevents the default and puts it on the last. The listener
  for Escape on the same page does nothing, since it tests the class.
\<close>

theorem focus_trap_wraps_on_closed_menu:
  "''active'' \<notin> classList sample_page 2 \<and>
   handleMenuKeydown sample_doc (keydown_on 4 ''Tab'' False)
       (sample_page\<lparr>activeElement := Some 4\<rparr>) =
     Normal (sample_page\<lparr>defaultPrevented := True, activeElement := Some 3\<rparr>) \<and>
   handleMenuKeydown sample_doc (keydown_on 3 ''Tab'' True)
       (sample_page\<lparr>activeElement := Some 3\<rparr>) =
     Normal (sample_page\<lparr>defaultPrevented := True, activeElement := Some 4\<rparr>) \<and>
   docKeydown sample_doc (keydown_on 4 ''Escape'' False)
       (sample_page\<lparr>activeElement := Some 4\<rparr>) =
     Normal (sample_page\<lparr>activeElement := Some 4\<rparr>)"
proof -
  have m: "navMenu sample_doc = Node 2" by (simp add: sample_doc_def)
  have closed: "''active'' \<notin> classList sample_page 2" by (simp add: sample_defs)
  have links: "menuLinks sample_doc = [3, 4]" by (simp add: sample_doc_def)
  have foc: "focusable sample_doc cl av 3" "focusable sample_doc cl av 4" for cl av
    by (simp_all add: sample_doc_def)
  have tab: "handleMenuKeydown sample_doc (keydown_on 4 ''Tab'' False)
       (sample_page\<lparr>activeElement := Some 4\<rparr>) =
     Normal (sample_page\<lparr>defaultPrevented := True, activeElement := Some 3\<rparr>)"
    by (simp add: handleMenuKeydown_run [OF m] links foc keydown_on_def)
  have shifted: "handleMenuKeydown sample_doc (keydown_on 3 ''Tab'' True)
       (sample_page\<lparr>activeElement := Some 3\<rparr>) =
     Normal (sample_page\<lparr>defaultPrevented := True, activeElement := Some 4\<rparr>)"
    by (simp add: handleMenuKeydown_run [OF m] links foc keydown_on_def)
  have esc: "docKeydown sample_doc (keydown_on 4 ''Escape'' False)
       (sample_page\<lparr>activeElement := Some 4\<rparr>) =
     Normal (sample_page\<lparr>activeElement := Some 4\<rparr>)"
    using closed by (simp add: docKeydown_def m keydown_on_def)
  from closed tab shifted esc show ?thesis by (intro conjI)
qed

text \<open>What the key press on the last link has done to the event and to the focus.\<close>

theorem focus_trap_wraps_on_closed_menu_witness:
  "defaultPrevented (state_of (handleMenuKeydown sample_doc (keydown_on 4 ''Tab'' False)
       (sample_page\<lparr>activeElement := Some 4\<rparr>))) \<and>
   activeElement (state_of (handleMenuKeydown sample_doc (keydown_on 4 ''Tab'' False)
       (sample_page\<lparr>activeElement := Some 4\<rparr>))) = Some 3 \<and>
   classList (state_of (handleMenuKeydown sample_doc (keydown_on 4 ''Tab'' False)
       (sample_page\<lparr>activeElement := Some 4\<rparr>))) 2 = {}"
proof -
  from focus_trap_wraps_on_closed_menu
  have run: "handleMenuKeydown sample_doc (keydown_on 4 ''Tab'' False)
       (sample_page\<lparr>activeElement := Some 4\<rparr>) =
     Normal (sample_page\<lparr>defaultPrevented := True, activeElement := Some 3\<rparr>)"
    by blast
  show ?thesis unfolding run by (simp add: sample_page_def blank_page_def)
qed

text \<open>
  Claim C10. When the menu has exactly one link and that link has the focus, a Tab key
  press, with or without Shift, prevents the default and gives the focus to that same
  link.
\<close>

theorem single_link_trap:
  assumes "navMenu D = Node m" and "menuLinks D = [l]" and "activeElement s = Some l"
    and "key e = ''Tab''"
  shows "handleMenuKeydown D e s =
           Normal (s\<lparr>defaultPrevented := True, activeElement := Some l\<rparr>)"
proof -
  have same: "s\<lparr>activeElement := Some l\<rparr> = s"
    using assms(3) [symmetric] by simp
  have links: "hd (menuLinks D) = l" "last (menuLinks D) = l" "menuLinks D \<noteq> []"
    by (simp_all add: assms(2))
  have "handleMenuKeydown D e s = Normal (s\<lparr>activeElement := Some l, defaultPrevented := True\<rparr>)"
    by (cases "shiftKey e")
       (simp_all add: handleMenuKeydown_run [OF assms(1)] links assms(3) assms(4) same)
  then show ?thesis by simp
qed

theorem single_link_trap_witness:
  "handleMenuKeydown (sample_doc\<lparr>menuLinks := [3]\<rparr>) (keydown_on 3 ''Tab'' True)
       (sample_page\<lparr>activeElement := Some 3\<rparr>) =
     Normal (sample_page\<lparr>defaultPrevented := True, activeElement := Some 3\<rparr>) \<and>
   handleMenuKeydown (sample_doc\<lparr>menuLinks := [3]\<rparr>) (keydown_on 3 ''Tab'' False)
       (sample_page\<lparr>activeElement := Some 3\<rparr>) =
     Normal (sample_page\<lparr>defaultPrevented := True, activeElement := Some 3\<rparr>)"
  using single_link_trap [of "sample_doc\<lparr>menuLinks := [3]\<rparr>" 2 3
      "sample_page\<lparr>activeElement := Some 3\<rparr>" "keydown_on 3 ''Tab'' True"]
    single_link_trap [of "sample_doc\<lparr>menuLinks := [3]\<rparr>" 2 3
      "sample_page\<lparr>activeElement := Some 3\<rparr>" "keydown_on 3 ''Tab'' False"]
  by (simp add: sample_defs)

section \<open>Smooth scrolling\<close>

text \<open>
  Claim C7. The click listener of an anchor whose \<open>href\<close> is exactly \<open>#\<close> returns with
  the page and the event as they were: the default is not prevented, nothing is
  scrolled, the focus stays. The same holds whenever the \<open>href\<close> selects no element
  (also when the browser rejects it as a selector, where the listener ends in the
  browser's exception before it has done anything).
\<close>

theorem anchor_click_falls_through:
  "(attributes s link ''href'' = Some ''#'' \<longrightarrow> handle D AnchorClick link e s = Normal s) \<and>
   ((\<forall>n. querySelector D (to_string (attributes s link ''href'')) \<noteq> Inr (Node n)) \<longrightarrow>
      state_of (handle D AnchorClick link e s) = s) \<and>
   (querySelector D (to_string (attributes s link ''href'')) = Inr Null \<longrightarrow>
      handle D AnchorClick link e s = Normal s)"
  by (auto simp: anchorClick_def Let_def truthy_def split: sum.splits jsref.splits)

theorem anchor_click_falls_through_witness:
  "attributes sample_page 5 ''href'' = Some ''#'' \<and>
   handle sample_doc AnchorClick 5 (click_on 5) sample_page = Normal sample_page \<and>
   querySelector sample_doc (to_string (attributes sample_page 6 ''href'')) = Inr Null \<and>
   handle sample_doc AnchorClick 6 (click_on 6) sample_page = Normal sample_page \<and>
   defaultPrevented (state_of (handle sample_doc AnchorClick 6 (click_on 6) sample_page)) = False \<and>
   scrolledTo (state_of (handle sample_doc AnchorClick 6 (click_on 6) sample_page)) = []"
proof -
  have h5: "attributes sample_page 5 ''href'' = Some ''#''"
    by (simp add: sample_defs)
  have h6: "querySelector sample_doc (to_string (attributes sample_page 6 ''href'')) = Inr Null"
    by (simp add: sample_defs to_string_def)
  have r5: "handle sample_doc AnchorClick 5 (click_on 5) sample_page = Normal sample_page"
    using anchor_click_falls_through [of sample_page 5 sample_doc "click_on 5"] h5 by blast
  have r6: "handle sample_doc AnchorClick 6 (click_on 6) sample_page = Normal sample_page"
    using anchor_click_falls_through [of sample_page 6 sample_doc "click_on 6"] h6 by blast
  have flags: "defaultPrevented sample_page = False" "scrolledTo sample_page = []"
    by (simp_all add: sample_defs)
  from h5 h6 r5 r6 flags show ?thesis by (simp del: handle.simps)
qed

section \<open>Active navigation link\<close>

lemma markLink_run:
  "\<exists>s'. markLink p l s = Normal s' \<and>
     classList s' = (classList s)(l :=
       (if isActive p (attributes s l ''href'') then insert ''active'' (classList s l)
        else classList s l - {''active''})) \<and>
     attributes s' = (attributes s)(l := (attributes s l)(''aria-current'' :=
       (if isActive p (attributes s l ''href'') then Some ''page'' else None)))"
  by (simp add: markLink_def Let_def dom_defs)

text \<open>
  The loop over the links never throws; it leaves on every link of the list the class
  and the attribute its own \<open>href\<close> asks for, and touches nothing else.
\<close>

lemma forEach_markLink:
  "\<exists>s'. forEach xs (markLink p) s = Normal s' \<and>
     (\<forall>n. classList s' n =
        (if n \<in> set xs then
           (if isActive p (attributes s n ''href'') then insert ''active'' (classList s n)
            else classList s n - {''active''})
         else classList s n)) \<and>
     (\<forall>n k. attributes s' n k =
        (if n \<in> set xs \<and> k = ''aria-current'' then
           (if isActive p (attributes s n ''href'') then Some ''page'' else None)
         else attributes s n k))"
proof (induction xs arbitrary: s)
  case Nil
  then show ?case by (simp add: forEach_def)
next
  case (Cons x xs)
  from markLink_run [of p x s] obtain s1 where
    s1: "markLink p x s = Normal s1"
      "classList s1 = (classList s)(x :=
         (if isActive p (attributes s x ''href'') then insert ''active'' (classList s x)
          else classList s x - {''active''}))"
      "attributes s1 = (attributes s)(x := (attributes s x)(''aria-current'' :=
         (if isActive p (attributes s x ''href'') then Some ''page'' else None)))"
    by blast
  from Cons.IH [of s1] obtain s' where
    s': "forEach xs (markLink p) s1 = Normal s'"
      "\<forall>n. classList s' n =
        (if n \<in> set xs then
           (if isActive p (attributes s1 n ''href'') then insert ''active'' (classList s1 n)
            else classList s1 n - {''active''})
         else classList s1 n)"
      "\<forall>n k. attributes s' n k =
        (if n \<in> set xs \<and> k = ''aria-current'' then
           (if isActive p (attributes s1 n ''href'') then Some ''page'' else None)
         else attributes s1 n k)"
    by blast
  have href: "attributes s1 n ''href'' = attributes s n ''href''" for n
    by (simp add: s1(3))
  have run: "forEach (x # xs) (markLink p) s = Normal s'"
    using s1(1) s'(1) by (simp add: forEach_def)
  have cls: "\<forall>n. classList s' n =
        (if n \<in> set (x # xs) then
           (if isActive p (attributes s n ''href'') then insert ''active'' (classList s n)
            else classList s n - {''active''})
         else classList s n)"
    using s'(2) by (auto simp: href s1(2))
  have att: "\<forall>n k. attributes s' n k =
        (if n \<in> set (x # xs) \<and> k = ''aria-current'' then
           (if isActive p (attributes s n ''href'') then Some ''page'' else None)
         else attributes s n k)"
    using s'(3) by (auto simp: href s1(3))
  from run cls att show ?case by blast
qed

lemma updateActiveNav_link:
  assumes "link \<in> set (navLinks D)"
  shows "throws (updateActiveNav D s) = None"
    and "''active'' \<in> classList (state_of (updateActiveNav D s)) link \<longleftrightarrow>
           isActive (pathname D) (attributes s link ''href'')"
    and "attributes (state_of (updateActiveNav D s)) link ''aria-current'' =
           (if isActive (pathname D) (attributes s link ''href'') then Some ''page'' else None)"
proof -
  from forEach_markLink [of "navLinks D" "pathname D" s] obtain s' where
    s': "updateActiveNav D s = Normal s'"
      "\<forall>n. classList s' n =
        (if n \<in> set (navLinks D) then
           (if isActive (pathname D) (attributes s n ''href'')
            then insert ''active'' (classList s n)
            else classList s n - {''active''})
         else classList s n)"
      "\<forall>n k. attributes s' n k =
        (if n \<in> set (navLinks D) \<and> k = ''aria-current'' then
           (if isActive (pathname D) (attributes s n ''href'') then Some ''page'' else None)
         else attributes s n k)"
    unfolding updateActiveNav_def by blast
  show "throws (updateActiveNav D s) = None" by (simp add: s'(1))
  show "''active'' \<in> classList (state_of (updateActiveNav D s)) link \<longleftrightarrow>
           isActive (pathname D) (attributes s link ''href'')"
    using assms s'(2) by (simp add: s'(1))
  show "attributes (state_of (updateActiveNav D s)) link ''aria-current'' =
           (if isActive (pathname D) (attributes s link ''href'') then Some ''page'' else None)"
    using assms s'(3) by (simp add: s'(1))
qed

text \<open>
  Claim C6. For every navigation link with a declared target \<open>h\<close>, whatever classes and
  attributes it had before, \<open>updateActiveNav\<close> leaves it with the class \<open>active\<close> exactly
  when the path ends with \<open>h\<close>, or the path is \<open>/\<close> and \<open>h\<close> is \<open>index.html\<close>, or the path ends
  with \<open>/\<close> and \<open>h\<close> is \<open>index.html\<close>; with \<open>aria-current\<close> equal to \<open>page\<close> in that case and
  removed otherwise. So a link to \<open>index.html\<close> is marked on every path ending in \<open>/\<close>, and
  on the path \<open>/about.html\<close> it is left with neither the class nor the attribute.
\<close>

theorem updateActiveNav_marks:
  assumes link: "link \<in> set (navLinks D)" and href: "attributes s link ''href'' = Some h"
  shows
   "throws (updateActiveNav D s) = None \<and>
    (''active'' \<in> classList (state_of (updateActiveNav D s)) link \<longleftrightarrow>
       (suffix h (pathname D) \<or> (pathname D = ''/'' \<and> h = ''index.html'') \<or>
        (suffix ''/'' (pathname D) \<and> h = ''index.html''))) \<and>
    attributes (state_of (updateActiveNav D s)) link ''aria-current'' =
       (if suffix h (pathname D) \<or> (pathname D = ''/'' \<and> h = ''index.html'') \<or>
           (suffix ''/'' (pathname D) \<and> h = ''index.html'')
        then Some ''page'' else None) \<and>
    (h = ''index.html'' \<and> suffix ''/'' (pathname D) \<longrightarrow>
       ''active'' \<in> classList (state_of (updateActiveNav D s)) link) \<and>
    (h = ''index.html'' \<and> pathname D = ''/about.html'' \<longrightarrow>
       ''active'' \<notin> classList (state_of (updateActiveNav D s)) link \<and>
       attributes (state_of (updateActiveNav D s)) link ''aria-current'' = None)"
proof -
  have act: "isActive (pathname D) (Some h) \<longleftrightarrow>
       (suffix h (pathname D) \<or> (pathname D = ''/'' \<and> h = ''index.html'') \<or>
        (suffix ''/'' (pathname D) \<and> h = ''index.html''))"
    by (simp add: isActive_def to_string_def endsWith_suffix)
  have about: "\<not> isActive ''/about.html'' (Some ''index.html'')"
    by (simp add: isActive_def to_string_def endsWith_def)
  show ?thesis
    using updateActiveNav_link [OF link, of s] act about by (auto simp: href)
qed

text \<open>
  The served page at \<open>/\<close> and at \<open>/about.html\<close>, with the link to \<open>index.html\<close> carrying a
  stale mark in the second case.
\<close>

theorem updateActiveNav_marks_witness:
  "3 \<in> set (navLinks sample_doc) \<and>
   attributes sample_page 3 ''href'' = Some ''index.html'' \<and>
   ''active'' \<in> classList (state_of (updateActiveNav sample_doc sample_page)) 3 \<and>
   ''active'' \<notin>
     classList (state_of (updateActiveNav (sample_doc\<lparr>pathname := ''/about.html''\<rparr>)
       (sample_page\<lparr>classList := (\<lambda>n. {''active''})\<rparr>))) 3"
proof -
  have l: "3 \<in> set (navLinks sample_doc)"
    and l': "3 \<in> set (navLinks (sample_doc\<lparr>pathname := ''/about.html''\<rparr>))"
    by (simp_all add: sample_doc_def)
  have h: "attributes sample_page 3 ''href'' = Some ''index.html''"
    and h': "attributes (sample_page\<lparr>classList := (\<lambda>n. {''active''})\<rparr>) 3 ''href'' =
               Some ''index.html''"
    by (simp_all add: sample_defs)
  have p: "suffix ''/'' (pathname sample_doc)"
    and p': "pathname (sample_doc\<lparr>pathname := ''/about.html''\<rparr>) = ''/about.html''"
    by (simp_all add: sample_doc_def)
  from updateActiveNav_marks [OF l h] updateActiveNav_marks [OF l' h'] l h p p'
  show ?thesis by blast
qed

text \<open>
  Claim C8. A navigation link whose \<open>href\<close> is the empty string is marked active on every
  path: it gets the class \<open>active\<close> and \<open>aria-current\<close> equal to \<open>page\<close>.
\<close>

theorem empty_href_always_active:
  assumes link: "link \<in> set (navLinks D)" and href: "attributes s link ''href'' = Some []"
  shows "throws (updateActiveNav D s) = None \<and>
         ''active'' \<in> classList (state_of (updateActiveNav D s)) link \<and>
         attributes (state_of (updateActiveNav D s)) link ''aria-current'' = Some ''page''"
proof -
  have "isActive (pathname D) (Some [])"
    by (simp add: isActive_def to_string_def endsWith_def)
  then show ?thesis using updateActiveNav_link [OF link, of s] by (simp add: href)
qed

theorem empty_href_always_active_witness:
  "4 \<in> set (navLinks (sample_doc\<lparr>pathname := ''/about.html''\<rparr>)) \<and>
   attributes (sample_page\<lparr>attributes := (\<lambda>n. [''href'' \<mapsto> []])\<rparr>) 4 ''href'' = Some [] \<and>
   ''active'' \<in> classList (state_of (updateActiveNav (sample_doc\<lparr>pathname := ''/about.html''\<rparr>)
       (sample_page\<lparr>attributes := (\<lambda>n. [''href'' \<mapsto> []])\<rparr>))) 4 \<and>
   attributes (state_of (updateActiveNav (sample_doc\<lparr>pathname := ''/about.html''\<rparr>)
       (sample_page\<lparr>attributes := (\<lambda>n. [''href'' \<mapsto> []])\<rparr>))) 4 ''aria-current'' = Some ''page''"
proof -
  have l: "4 \<in> set (navLinks (sample_doc\<lparr>pathname := ''/about.html''\<rparr>))"
    by (simp add: sample_doc_def)
  have h: "attributes (sample_page\<lparr>attributes := (\<lambda>n. [''href'' \<mapsto> []])\<rparr>) 4 ''href'' = Some []"
    by (simp add: sample_defs)
  from empty_href_always_active [OF l h] l h show ?thesis by blast
qed

section \<open>Dark mode\<close>

lemma themeClick_run:
  "themeToggle D = Node b \<Longrightarrow>
   themeClick D s =
     (let newTheme = (if data_theme D s = Some ''dark'' then ''light'' else ''dark'');
          s1 = s\<lparr>attributes := (attributes s)(documentElement D :=
                  (attributes s (documentElement D))(''data-theme'' \<mapsto> newTheme))\<rparr>;
          s2 = s1\<lparr>localStorage := (localStorage s)(''theme'' \<mapsto> newTheme)\<rparr>
      in Normal (s2\<lparr>attributes := (attributes s2)(b :=
                  (attributes s2 b)(''aria-label'' \<mapsto>
                     (if newTheme = ''dark'' then ''Switch to light mode''
                      else ''Switch to dark mode'')))\<rparr>))"
  by (simp add: themeClick_def Let_def dom_defs data_theme_def)

lemma themeClick_theme:
  assumes "themeToggle D = Node b"
  shows "data_theme D (state_of (themeClick D s)) =
           Some (if data_theme D s = Some ''dark'' then ''light'' else ''dark'')"
    and "stored_theme (state_of (themeClick D s)) =
           Some (if data_theme D s = Some ''dark'' then ''light'' else ''dark'')"
    and "throws (themeClick D s) = None"
    and "listeners (state_of (themeClick D s)) = listeners s"
  by (simp_all add: themeClick_run [OF assms] Let_def data_theme_def stored_theme_def)

text \<open>
  What initialisation leaves in \<open>data-theme\<close>: \<open>dark\<close> when the toggle exists and either
  \<open>dark\<close> is stored or nothing truthy is stored and the system prefers dark; what was
  there otherwise.
\<close>

lemma initDarkMode_theme:
  "data_theme D (state_of (initDarkMode D s)) =
     (if truthy (themeToggle D) \<and>
         (stored_theme s = Some ''dark'' \<or> (\<not> truthy_str (stored_theme s) \<and> prefersDark D))
      then Some ''dark'' else data_theme D s)"
  by (cases "themeToggle D")
     (simp_all add: initDarkMode_def Let_def dom_defs truthy_def data_theme_def stored_theme_def)

lemma initDarkMode_inert:
  "\<not> truthy (themeToggle D) \<Longrightarrow> initDarkMode D s = Normal s"
  by (simp add: initDarkMode_def)

lemma theme_step_theme:
  "data_theme D (state_of (theme_step D op s)) \<in>
     {data_theme D s, Some ''dark'', Some ''light''}"
proof (cases op)
  case ThemeInit
  then show ?thesis by (simp add: initDarkMode_theme)
next
  case ThemeToggle
  show ?thesis
  proof (cases "themeToggle D")
    case (Node b)
    then show ?thesis using ThemeToggle themeClick_theme(1) [OF Node, of s] by simp
  qed (simp_all add: ThemeToggle theme_registered_def)
qed

text \<open>
  Claim C2, as the code has it. From a page whose root has no \<open>data-theme\<close>, or \<open>dark\<close> or
  \<open>light\<close>, every state reached by initialisation and clicks on the toggle has
  \<open>data-theme\<close> absent, \<open>dark\<close> or \<open>light\<close>. Initialisation writes \<open>dark\<close> or nothing; a click
  writes \<open>light\<close> when the attribute is \<open>dark\<close> and \<open>dark\<close> otherwise.
\<close>

theorem data_theme_values:
  "(data_theme D s \<in> {None, Some ''dark'', Some ''light''} \<longrightarrow>
      data_theme D (theme_run D s ops) \<in> {None, Some ''dark'', Some ''light''}) \<and>
   data_theme D (state_of (initDarkMode D s)) \<in> {data_theme D s, Some ''dark''} \<and>
   (themeToggle D = Node b \<longrightarrow>
      data_theme D (state_of (themeClick D s)) =
        Some (if data_theme D s = Some ''dark'' then ''light'' else ''dark''))"
proof -
  have run: "data_theme D s \<in> {None, Some ''dark'', Some ''light''} \<Longrightarrow>
      data_theme D (theme_run D s ops) \<in> {None, Some ''dark'', Some ''light''}"
  proof (induction ops arbitrary: s)
    case Nil
    then show ?case by simp
  next
    case (Cons op ops)
    from theme_step_theme [of D op s] Cons.prems
    have "data_theme D (state_of (theme_step D op s)) \<in> {None, Some ''dark'', Some ''light''}"
      by auto
    from Cons.IH [OF this] show ?case by simp
  qed
  show ?thesis using run themeClick_theme(1) by (simp add: initDarkMode_theme)
qed

theorem data_theme_values_witness:
  "data_theme sample_doc blank_page = None \<and>
   themeToggle sample_doc = Node 7 \<and>
   data_theme sample_doc (theme_run sample_doc blank_page [ThemeInit, ThemeToggle, ThemeToggle])
     \<in> {None, Some ''dark'', Some ''light''} \<and>
   data_theme sample_doc (state_of (themeClick sample_doc blank_page)) = Some ''dark''"
proof -
  have start: "data_theme sample_doc blank_page = None"
    by (simp add: data_theme_def sample_defs)
  have b: "themeToggle sample_doc = Node 7" by (simp add: sample_doc_def)
  from data_theme_values [of sample_doc blank_page "[ThemeInit, ThemeToggle, ThemeToggle]" 7]
    start b
  show ?thesis by (simp del: theme_run.simps)
qed

text \<open>
  The claim as written fails: on a fresh visit with a system that prefers dark,
  initialisation writes \<open>dark\<close> and the first click on the toggle writes \<open>light\<close>.
\<close>

theorem data_theme_light_reachable:
  "\<not> data_theme sample_doc (theme_run sample_doc blank_page [ThemeInit, ThemeToggle])
       \<in> {None, Some ''dark''}"
  by (simp add: sample_defs initDarkMode_def themeClick_def Let_def dom_defs
        truthy_def truthy_str_def theme_registered_def data_theme_def)

text \<open>
  Claim C5, as the code has it. Every click on the toggle stores the mode it has just
  applied. Two clicks in a row bring both the applied attribute and the stored value
  back to what they were exactly when the attribute was \<open>dark\<close> or \<open>light\<close> and the stored
  value was equal to it.
\<close>

theorem toggle_twice:
  assumes b: "themeToggle D = Node b"
  shows
   "((data_theme D (state_of (themeClick D (state_of (themeClick D s)))) = data_theme D s \<and>
      stored_theme (state_of (themeClick D (state_of (themeClick D s)))) = stored_theme s)
     \<longleftrightarrow>
     ((data_theme D s = Some ''dark'' \<or> data_theme D s = Some ''light'') \<and>
      stored_theme s = data_theme D s)) \<and>
    stored_theme (state_of (themeClick D s)) = data_theme D (state_of (themeClick D s)) \<and>
    data_theme D (state_of (themeClick D s)) =
      Some (if data_theme D s = Some ''dark'' then ''light'' else ''dark'')"
  by (auto simp: themeClick_theme [OF b])

text \<open>A returning visitor with \<open>dark\<close> stored: initialisation, then two clicks.\<close>

theorem toggle_twice_witness:
  "themeToggle sample_doc = Node 7 \<and>
   data_theme sample_doc
     (theme_run sample_doc (blank_page\<lparr>localStorage := [''theme'' \<mapsto> ''dark'']\<rparr>) [ThemeInit]) =
     Some ''dark'' \<and>
   stored_theme
     (theme_run sample_doc (blank_page\<lparr>localStorage := [''theme'' \<mapsto> ''dark'']\<rparr>) [ThemeInit]) =
     Some ''dark'' \<and>
   data_theme sample_doc (state_of (themeClick sample_doc (state_of (themeClick sample_doc
     (theme_run sample_doc (blank_page\<lparr>localStorage := [''theme'' \<mapsto> ''dark'']\<rparr>) [ThemeInit]))))) =
     Some ''dark'' \<and>
   stored_theme (state_of (themeClick sample_doc (state_of (themeClick sample_doc
     (theme_run sample_doc (blank_page\<lparr>localStorage := [''theme'' \<mapsto> ''dark'']\<rparr>) [ThemeInit]))))) =
     Some ''dark''"
proof -
  have b: "themeToggle sample_doc = Node 7" by (simp add: sample_doc_def)
  have d: "data_theme sample_doc
     (theme_run sample_doc (blank_page\<lparr>localStorage := [''theme'' \<mapsto> ''dark'']\<rparr>) [ThemeInit]) =
     Some ''dark''"
    by (simp add: sample_defs initDarkMode_def Let_def dom_defs truthy_def data_theme_def)
  have st: "stored_theme
     (theme_run sample_doc (blank_page\<lparr>localStorage := [''theme'' \<mapsto> ''dark'']\<rparr>) [ThemeInit]) =
     Some ''dark''"
    by (simp add: sample_defs initDarkMode_def Let_def dom_defs truthy_def stored_theme_def)
  from toggle_twice [OF b, of
      "theme_run sample_doc (blank_page\<lparr>localStorage := [''theme'' \<mapsto> ''dark'']\<rparr>) [ThemeInit]"]
    b d st
  show ?thesis by (simp del: theme_run.simps)
qed

text \<open>
  The claim as written fails: on a fresh visit with a system that prefers light, the
  page starts with no \<open>data-theme\<close> and nothing stored; after two clicks on the toggle
  both are \<open>light\<close>.
\<close>

theorem toggle_twice_fresh_page:
  "\<not> (data_theme (sample_doc\<lparr>prefersDark := False\<rparr>)
         (theme_run (sample_doc\<lparr>prefersDark := False\<rparr>) blank_page
            [ThemeInit, ThemeToggle, ThemeToggle]) =
       data_theme (sample_doc\<lparr>prefersDark := False\<rparr>)
         (theme_run (sample_doc\<lparr>prefersDark := False\<rparr>) blank_page [ThemeInit]) \<and>
       stored_theme
         (theme_run (sample_doc\<lparr>prefersDark := False\<rparr>) blank_page
            [ThemeInit, ThemeToggle, ThemeToggle]) =
       stored_theme
         (theme_run (sample_doc\<lparr>prefersDark := False\<rparr>) blank_page [ThemeInit]))"
  by (simp add: sample_defs initDarkMode_def themeClick_def Let_def dom_defs
        truthy_def truthy_str_def theme_registered_def data_theme_def stored_theme_def)

text \<open>
  Claim C9, as the code has it. At initialisation a stored value that is not empty and
  not \<open>dark\<close> leaves \<open>data-theme\<close> as it was, whatever the system prefers. With the toggle
  present, an absent or empty stored value defers to the system preference, and a
  stored \<open>dark\<close> applies \<open>dark\<close>.
\<close>

theorem saved_theme_at_init:
  "(stored_theme s = Some v \<and> v \<noteq> [] \<and> v \<noteq> ''dark'' \<longrightarrow>
      data_theme D (state_of (initDarkMode D s)) = data_theme D s) \<and>
   (themeToggle D = Node b \<and> (stored_theme s = None \<or> stored_theme s = Some []) \<longrightarrow>
      data_theme D (state_of (initDarkMode D s)) =
        (if prefersDark D then Some ''dark'' else data_theme D s)) \<and>
   (themeToggle D = Node b \<and> stored_theme s = Some ''dark'' \<longrightarrow>
      data_theme D (state_of (initDarkMode D s)) = Some ''dark'')"
  by (auto simp: initDarkMode_theme truthy_str_def truthy_def)

text \<open>A stored \<open>light\<close> on a system that prefers dark.\<close>

theorem saved_theme_at_init_witness:
  "stored_theme (blank_page\<lparr>localStorage := [''theme'' \<mapsto> ''light'']\<rparr>) = Some ''light'' \<and>
   prefersDark sample_doc \<and> themeToggle sample_doc = Node 7 \<and>
   data_theme sample_doc
     (state_of (initDarkMode sample_doc (blank_page\<lparr>localStorage := [''theme'' \<mapsto> ''light'']\<rparr>))) =
     None"
proof -
  have st: "stored_theme (blank_page\<lparr>localStorage := [''theme'' \<mapsto> ''light'']\<rparr>) = Some ''light''"
    by (simp add: stored_theme_def)
  have ne: "''light'' \<noteq> [] \<and> ''light'' \<noteq> ''dark''" by simp
  have env: "prefersDark sample_doc" "themeToggle sample_doc = Node 7"
    by (simp_all add: sample_doc_def)
  have before: "data_theme sample_doc (blank_page\<lparr>localStorage := [''theme'' \<mapsto> ''light'']\<rparr>) = None"
    by (simp add: data_theme_def blank_page_def)
  from saved_theme_at_init [of "blank_page\<lparr>localStorage := [''theme'' \<mapsto> ''light'']\<rparr>"
      "''light''" sample_doc 7] st ne
  have "data_theme sample_doc
     (state_of (initDarkMode sample_doc (blank_page\<lparr>localStorage := [''theme'' \<mapsto> ''light'']\<rparr>))) =
     data_theme sample_doc (blank_page\<lparr>localStorage := [''theme'' \<mapsto> ''light'']\<rparr>)"
    by blast
  with st env before show ?thesis by simp
qed

text \<open>
  The claim as written fails: with the empty string stored under \<open>theme\<close> and a system
  that prefers dark, initialisation applies \<open>dark\<close>.
\<close>

theorem empty_saved_theme_defers_to_system:
  "stored_theme (blank_page\<lparr>localStorage := [''theme'' \<mapsto> []]\<rparr>) = Some [] \<and>
   prefersDark sample_doc \<and>
   data_theme sample_doc (blank_page\<lparr>localStorage := [''theme'' \<mapsto> []]\<rparr>) = None \<and>
   data_theme sample_doc
     (state_of (initDarkMode sample_doc (blank_page\<lparr>localStorage := [''theme'' \<mapsto> []]\<rparr>))) =
     Some ''dark''"
  by (simp add: sample_defs initDarkMode_def Let_def dom_defs
        truthy_def truthy_str_def data_theme_def stored_theme_def)

section \<open>Lightbox\<close>

text \<open>Without the overlay or without a gallery image, initialisation does nothing.\<close>

lemma initLightbox_inert:
  "\<not> truthy (lightbox D) \<or> galleryImages D = [] \<Longrightarrow> initLightbox D s = Normal s"
  by (auto simp: initLightbox_def)

text \<open>
  With the overlay and a gallery image but no close button, initialisation registers the
  listeners of the images and then throws, before the listeners that close the overlay
  are registered.
\<close>

lemma initLightbox_no_close_button:
  assumes "truthy (lightbox D)" and "galleryImages D \<noteq> []" and "\<not> truthy (lightboxClose D)"
  shows "throws (initLightbox D s) = Some TypeError"
proof -
  have imgs: "\<exists>s'. forEach xs (\<lambda>img.
        block [addEventListener (Node img) ''click'' GalleryClick,
               addEventListener (Node img) ''keydown'' GalleryKeydown]) s = Normal s'" for xs s
    by (induction xs arbitrary: s) (simp_all add: forEach_def dom_defs)
  from imgs [of "galleryImages D" s] obtain s' where
    "forEach (galleryImages D) (\<lambda>img.
        block [addEventListener (Node img) ''click'' GalleryClick,
               addEventListener (Node img) ''keydown'' GalleryKeydown]) s = Normal s'"
    by blast
  then show ?thesis
    using assms by (cases "lightboxClose D") (simp_all add: initLightbox_def dom_defs truthy_def)
qed

text \<open>With everything but the overlay's image, opening the lightbox throws.\<close>

lemma openLightbox_no_image:
  "\<not> truthy (lightboxImg D) \<Longrightarrow> openLightbox D img s = Throw TypeError s"
  by (cases "lightboxImg D") (simp_all add: openLightbox_def dom_defs truthy_def)

text \<open>
  Claim C1, where the code departs from it. On the page with the overlay, its image and
  two gallery images but no close button, \<open>initLightbox\<close> throws \<open>TypeError\<close> after it has
  registered the four listeners of the images, and so does \<open>init\<close>. On the page with no
  image in the overlay, \<open>initLightbox\<close> completes and a click on a gallery image throws
  \<open>TypeError\<close>.
\<close>

theorem initLightbox_missing_prerequisite_throws:
  "throws (initLightbox (sample_doc\<lparr>lightboxClose := Null\<rparr>) blank_page) = Some TypeError \<and>
   listeners (state_of (initLightbox (sample_doc\<lparr>lightboxClose := Null\<rparr>) blank_page)) =
     [(Element 11, ''click'', GalleryClick), (Element 11, ''keydown'', GalleryKeydown),
      (Element 12, ''click'', GalleryClick), (Element 12, ''keydown'', GalleryKeydown)] \<and>
   throws (init (sample_doc\<lparr>lightboxClose := Null\<rparr>) blank_page) = Some TypeError \<and>
   throws (initLightbox (sample_doc\<lparr>lightboxImg := Null\<rparr>) blank_page) = None \<and>
   throws (handle (sample_doc\<lparr>lightboxImg := Null\<rparr>) GalleryClick 11 (click_on 11)
             (state_of (initLightbox (sample_doc\<lparr>lightboxImg := Null\<rparr>) blank_page))) =
     Some TypeError"
  by (simp add: sample_defs init_def initLightbox_def initNavigation_def
        initSmoothScroll_def updateActiveNav_def markLink_def isActive_def to_string_def
        endsWith_def initDarkMode_def truthy_str_def
        galleryClick_def openLightbox_def forEach_def Let_def dom_defs truthy_def)

theorem initLightbox_missing_prerequisite_throws_witness:
  "throws (initLightbox (sample_doc\<lparr>lightboxClose := Null\<rparr>) blank_page) \<noteq> None \<and>
   truthy (lightbox (sample_doc\<lparr>lightboxClose := Null\<rparr>)) \<and>
   galleryImages (sample_doc\<lparr>lightboxClose := Null\<rparr>) = [11, 12]"
  using initLightbox_missing_prerequisite_throws
  by (simp add: sample_doc_def truthy_def)

end
